theory Spec2Isabelle
  imports Main "HOL-Library.Word"
begin

section \<open>The values the controller handles\<close>

text \<open>
  The model follows \<^verbatim>\<open>pkg/controller/controller.go\<close>. The Kubernetes client
  library is used by the controller but is not part of it: the values it hands out
  (client sets, REST clients, stores, informer controllers) are modelled as plain data,
  and the calls into it that have an effect (\<^verbatim>\<open>cache.NewInformer\<close>, the
  \<^verbatim>\<open>go\<close> statement, \<^verbatim>\<open>http.ListenAndServe\<close>) are recorded in
  an explicit world that every function takes and returns.
\<close>

type_synonym error = string

text \<open>A \<^verbatim>\<open>handlers.Handler\<close> is a notification backend; its three methods,
  taken as method values, are the callbacks an informer can be given.\<close>

datatype Handler = Handler string

datatype callback =
    ObjectCreated Handler
  | ObjectUpdated Handler
  | ObjectDeleted Handler

datatype rawConfig = RawConfig string

datatype restConfig = RestConfig string

datatype Clientset = Clientset restConfig

text \<open>\<^verbatim>\<open>clientset.Core()\<close>, \<^verbatim>\<open>clientset.ExtensionsV1beta1()\<close> and
  \<^verbatim>\<open>clientset.BatchV1()\<close> select an API group of a client set;
  \<^verbatim>\<open>.RESTClient()\<close> is the REST client of that group.\<close>

datatype api_group = Core | ExtensionsV1beta1 | BatchV1

datatype RESTClient = RESTClient Clientset api_group

text \<open>A field selector is a conjunction of requirements; \<^verbatim>\<open>fields.Everything()\<close>
  is the empty conjunction. \<^verbatim>\<open>api.NamespaceAll\<close> is the empty string.\<close>

type_synonym Selector = "(string \<times> string) list"

definition Everything :: Selector where
  "Everything = []"

definition NamespaceAll :: string where
  "NamespaceAll = []"

record ListWatch =
  lw_client :: RESTClient
  lw_resource :: string
  lw_namespace :: string
  lw_fieldSelector :: Selector

definition NewListWatchFromClient ::
  "RESTClient \<Rightarrow> string \<Rightarrow> string \<Rightarrow> Selector \<Rightarrow> ListWatch" where
  "NewListWatchFromClient c resource namespace fieldSelector =
     \<lparr>lw_client = c, lw_resource = resource, lw_namespace = namespace,
      lw_fieldSelector = fieldSelector\<rparr>"

text \<open>The object types given to the informers: \<^verbatim>\<open>&api.Pod{}\<close>,
  \<^verbatim>\<open>&api.Service{}\<close>, \<^verbatim>\<open>&api.ReplicationController{}\<close>,
  \<^verbatim>\<open>&v1beta1.Deployment{}\<close>, \<^verbatim>\<open>&batchv1.Job{}\<close> and
  \<^verbatim>\<open>&api.PersistentVolume{}\<close>.\<close>

datatype objType =
    api_Pod
  | api_Service
  | api_ReplicationController
  | v1beta1_Deployment
  | batchv1_Job
  | api_PersistentVolume

text \<open>\<^verbatim>\<open>time.Duration\<close> is a signed 64-bit count of nanoseconds.\<close>

type_synonym Duration = "64 word"

definition Nanosecond :: Duration where
  "Nanosecond = 1"

definition Microsecond :: Duration where
  "Microsecond = 1000 * Nanosecond"

definition Millisecond :: Duration where
  "Millisecond = 1000 * Microsecond"

definition Second :: Duration where
  "Second = 1000 * Millisecond"

definition Minute :: Duration where
  "Minute = 60 * Second"

text \<open>\<^verbatim>\<open>cache.ResourceEventHandlerFuncs\<close>: a field left out of the composite
  literal is nil.\<close>

record ResourceEventHandlerFuncs =
  AddFunc :: "callback option"
  UpdateFunc :: "callback option"
  DeleteFunc :: "callback option"

record Informer =
  inf_lw :: ListWatch
  inf_objType :: objType
  inf_resyncPeriod :: Duration
  inf_h :: ResourceEventHandlerFuncs

datatype Store = Store nat

datatype InformerController = InformerController nat

text \<open>A stop channel: \<^verbatim>\<open>wait.NeverStop\<close> is the receive-only channel that is
  never closed; any other channel is one the program could close.\<close>

datatype stop_chan = NeverStop | StopCh nat

text \<open>The world: the informers built so far (the n-th call of
  \<^verbatim>\<open>cache.NewInformer\<close> returns store n and controller n), the goroutines
  started with \<^verbatim>\<open>go c.Run(stop)\<close>, and the addresses
  \<^verbatim>\<open>http.ListenAndServe\<close> was called with.\<close>

record World =
  informers :: "Informer list"
  goroutines :: "(InformerController \<times> stop_chan) list"
  listen_calls :: "string list"

definition NewInformer ::
  "ListWatch \<Rightarrow> objType \<Rightarrow> Duration \<Rightarrow> ResourceEventHandlerFuncs \<Rightarrow> World
     \<Rightarrow> Store \<times> InformerController \<times> World" where
  "NewInformer lw t resyncPeriod h w =
     (Store (length (informers w)), InformerController (length (informers w)),
      w\<lparr>informers := informers w @
          [\<lparr>inf_lw = lw, inf_objType = t, inf_resyncPeriod = resyncPeriod, inf_h = h\<rparr>]\<rparr>)"

definition go_Run :: "InformerController \<Rightarrow> stop_chan \<Rightarrow> World \<Rightarrow> World" where
  "go_Run c stop w = w\<lparr>goroutines := goroutines w @ [(c, stop)]\<rparr>"

section \<open>The six watch functions\<close>

definition watchPods :: "Clientset \<Rightarrow> Handler \<Rightarrow> World \<Rightarrow> Store \<times> World" where
  "watchPods clientset eventHandler w =
     (let watchlist = NewListWatchFromClient (RESTClient clientset Core) ''pods''
                        NamespaceAll Everything;
          resyncPeriod = 30 * Minute;
          (eStore, eController, w1) = NewInformer watchlist api_Pod resyncPeriod
             \<lparr>AddFunc = Some (ObjectCreated eventHandler),
              UpdateFunc = None,
              DeleteFunc = Some (ObjectDeleted eventHandler)\<rparr> w;
          w2 = go_Run eController NeverStop w1
      in (eStore, w2))"

definition watchServices :: "Clientset \<Rightarrow> Handler \<Rightarrow> World \<Rightarrow> Store \<times> World" where
  "watchServices clientset eventHandler w =
     (let watchlist = NewListWatchFromClient (RESTClient clientset Core) ''services''
                        NamespaceAll Everything;
          resyncPeriod = 30 * Minute;
          (eStore, eController, w1) = NewInformer watchlist api_Service resyncPeriod
             \<lparr>AddFunc = Some (ObjectCreated eventHandler),
              UpdateFunc = Some (ObjectUpdated eventHandler),
              DeleteFunc = Some (ObjectDeleted eventHandler)\<rparr> w;
          w2 = go_Run eController NeverStop w1
      in (eStore, w2))"

definition watchReplicationControllers ::
  "Clientset \<Rightarrow> Handler \<Rightarrow> World \<Rightarrow> Store \<times> World" where
  "watchReplicationControllers clientset eventHandler w =
     (let watchlist = NewListWatchFromClient (RESTClient clientset Core)
                        ''replicationcontrollers'' NamespaceAll Everything;
          resyncPeriod = 30 * Minute;
          (eStore, eController, w1) = NewInformer watchlist api_ReplicationController
             resyncPeriod
             \<lparr>AddFunc = Some (ObjectCreated eventHandler),
              UpdateFunc = None,
              DeleteFunc = Some (ObjectDeleted eventHandler)\<rparr> w;
          w2 = go_Run eController NeverStop w1
      in (eStore, w2))"

definition watchDeployments :: "Clientset \<Rightarrow> Handler \<Rightarrow> World \<Rightarrow> Store \<times> World" where
  "watchDeployments clientset eventHandler w =
     (let watchlist = NewListWatchFromClient (RESTClient clientset ExtensionsV1beta1)
                        ''deployments'' NamespaceAll Everything;
          resyncPeriod = 30 * Minute;
          (eStore, eController, w1) = NewInformer watchlist v1beta1_Deployment resyncPeriod
             \<lparr>AddFunc = Some (ObjectCreated eventHandler),
              UpdateFunc = None,
              DeleteFunc = Some (ObjectDeleted eventHandler)\<rparr> w;
          w2 = go_Run eController NeverStop w1
      in (eStore, w2))"

definition watchJobs :: "Clientset \<Rightarrow> Handler \<Rightarrow> World \<Rightarrow> Store \<times> World" where
  "watchJobs clientset eventHandler w =
     (let watchlist = NewListWatchFromClient (RESTClient clientset BatchV1) ''jobs''
                        NamespaceAll Everything;
          resyncPeriod = 30 * Minute;
          (eStore, eController, w1) = NewInformer watchlist batchv1_Job resyncPeriod
             \<lparr>AddFunc = Some (ObjectCreated eventHandler),
              UpdateFunc = None,
              DeleteFunc = Some (ObjectDeleted eventHandler)\<rparr> w;
          w2 = go_Run eController NeverStop w1
      in (eStore, w2))"

text \<open>The \<^verbatim>\<open>store\<close> parameter is an interface value and may be nil.\<close>

definition watchPersistenVolumes ::
  "Clientset \<Rightarrow> Store option \<Rightarrow> Handler \<Rightarrow> World \<Rightarrow> Store \<times> World" where
  "watchPersistenVolumes clientset store eventHandler w =
     (let watchlist = NewListWatchFromClient (RESTClient clientset Core)
                        ''persistentvolumes'' NamespaceAll Everything;
          resyncPeriod = 30 * Minute;
          (eStore, eController, w1) = NewInformer watchlist api_PersistentVolume
             resyncPeriod
             \<lparr>AddFunc = Some (ObjectCreated eventHandler),
              UpdateFunc = None,
              DeleteFunc = Some (ObjectDeleted eventHandler)\<rparr> w;
          w2 = go_Run eController NeverStop w1
      in (eStore, w2))"

section \<open>The controller\<close>

text \<open>The configuration: the package \<^verbatim>\<open>config\<close> that declares it is not among
  the sources, so the records have the fields the controller reads,
  \<^verbatim>\<open>conf.Resource.Pod\<close> to \<^verbatim>\<open>conf.Resource.PersistentVolume\<close>,
  each a boolean flag.\<close>

record Resource =
  Pod :: bool
  Services :: bool
  ReplicationController :: bool
  Deployment :: bool
  Job :: bool
  PersistentVolume :: bool

record Config =
  Resource :: Resource

text \<open>What the environment answers to the calls of the set-up and to the listener:
  loading the client configuration, deriving the REST configuration, building the client
  set (\<^verbatim>\<open>NewForConfigOrDie\<close> panics where \<^verbatim>\<open>NewForConfig\<close> fails),
  and \<^verbatim>\<open>http.ListenAndServe\<close>, which either never returns (None) or returns
  an error.\<close>

record Env =
  Load :: "error + rawConfig"
  ClientConfig :: "rawConfig \<Rightarrow> error + restConfig"
  NewForConfig :: "restConfig \<Rightarrow> error + Clientset"
  ListenAndServe :: "string \<Rightarrow> error option"

text \<open>How a call of the controller ends: \<^verbatim>\<open>logrus.Fatal\<close> logs its argument
  and exits the process with status 1; a panic that nothing recovers prints its value and
  exits the process with status 2; the listener serves for ever; or control reaches the
  end of the body and goes back to the caller.\<close>

datatype outcome =
    Fatal error
  | Panic error
  | ServingForever
  | Returned

fun exit_status :: "outcome \<Rightarrow> nat option" where
  "exit_status (Fatal e) = Some 1"
| "exit_status (Panic e) = Some 2"
| "exit_status ServingForever = None"
| "exit_status Returned = None"

fun diagnostic :: "outcome \<Rightarrow> error option" where
  "diagnostic (Fatal e) = Some e"
| "diagnostic (Panic e) = Some e"
| "diagnostic ServingForever = None"
| "diagnostic Returned = None"

definition Controller :: "Config \<Rightarrow> Handler \<Rightarrow> Env \<Rightarrow> World \<Rightarrow> outcome \<times> World" where
  "Controller conf eventHandler env w =
     (case Load env of
        Inl err \<Rightarrow> (Fatal err, w)
      | Inr rawConfig \<Rightarrow>
     (case ClientConfig env rawConfig of
        Inl err \<Rightarrow> (Fatal err, w)
      | Inr restConfig \<Rightarrow>
     (case NewForConfig env restConfig of
        Inl err \<Rightarrow> (Panic err, w)
      | Inr kubeClient \<Rightarrow>
     (let w1 = (if Pod (Resource conf)
                then snd (watchPods kubeClient eventHandler w) else w);
          w2 = (if Services (Resource conf)
                then snd (watchServices kubeClient eventHandler w1) else w1);
          w3 = (if ReplicationController (Resource conf)
                then snd (watchReplicationControllers kubeClient eventHandler w2) else w2);
          w4 = (if Deployment (Resource conf)
                then snd (watchDeployments kubeClient eventHandler w3) else w3);
          w5 = (if Job (Resource conf)
                then snd (watchJobs kubeClient eventHandler w4) else w4);
          w6 = (if PersistentVolume (Resource conf)
                then snd (watchPersistenVolumes kubeClient None eventHandler w5) else w5);
          w7 = w6\<lparr>listen_calls := listen_calls w6 @ ['':8081'']\<rparr>
      in (case ListenAndServe env '':8081'' of
            Some err \<Rightarrow> (Fatal err, w7)
          | None \<Rightarrow> (ServingForever, w7))))))"

section \<open>Vocabulary for the properties\<close>

text \<open>The watch function of a kind of object, as the controller calls it.\<close>

definition watch :: "objType \<Rightarrow> Clientset \<Rightarrow> Handler \<Rightarrow> World \<Rightarrow> Store \<times> World" where
  "watch k clientset eventHandler w =
     (case k of
        api_Pod \<Rightarrow> watchPods clientset eventHandler w
      | api_Service \<Rightarrow> watchServices clientset eventHandler w
      | api_ReplicationController \<Rightarrow> watchReplicationControllers clientset eventHandler w
      | v1beta1_Deployment \<Rightarrow> watchDeployments clientset eventHandler w
      | batchv1_Job \<Rightarrow> watchJobs clientset eventHandler w
      | api_PersistentVolume \<Rightarrow> watchPersistenVolumes clientset None eventHandler w)"

text \<open>The flag of the configuration that guards the watch function of a kind.\<close>

definition enabled :: "Config \<Rightarrow> objType \<Rightarrow> bool" where
  "enabled conf k =
     (case k of
        api_Pod \<Rightarrow> Pod (Resource conf)
      | api_Service \<Rightarrow> Services (Resource conf)
      | api_ReplicationController \<Rightarrow> ReplicationController (Resource conf)
      | v1beta1_Deployment \<Rightarrow> Deployment (Resource conf)
      | batchv1_Job \<Rightarrow> Job (Resource conf)
      | api_PersistentVolume \<Rightarrow> PersistentVolume (Resource conf))"

text \<open>The kinds in the order in which the controller goes through their flags.\<close>

definition all_kinds :: "objType list" where
  "all_kinds = [api_Pod, api_Service, api_ReplicationController, v1beta1_Deployment,
                batchv1_Job, api_PersistentVolume]"

text \<open>The world of a process that has built no informer yet.\<close>

definition empty_world :: World where
  "empty_world = \<lparr>informers = [], goroutines = [], listen_calls = []\<rparr>"

text \<open>The informer the watch function of a kind builds.\<close>

definition informer_of :: "objType \<Rightarrow> Clientset \<Rightarrow> Handler \<Rightarrow> Informer" where
  "informer_of k clientset eventHandler =
     last (informers (snd (watch k clientset eventHandler empty_world)))"

text \<open>The informers and goroutines a run adds to the world it starts from.\<close>

definition new_informers :: "World \<Rightarrow> World \<Rightarrow> Informer list" where
  "new_informers w w' = drop (length (informers w)) (informers w')"

definition new_goroutines :: "World \<Rightarrow> World \<Rightarrow> (InformerController \<times> stop_chan) list" where
  "new_goroutines w w' = drop (length (goroutines w)) (goroutines w')"

text \<open>
  How the last statement of the controller,
  \<^verbatim>\<open>logrus.Fatal(http.ListenAndServe(":8081", nil))\<close>, ends.
\<close>

definition listen_outcome :: "Env \<Rightarrow> outcome" where
  "listen_outcome env =
     (case ListenAndServe env '':8081'' of Some err \<Rightarrow> Fatal err | None \<Rightarrow> ServingForever)"

text \<open>Calling the watch functions of a list of kinds one after the other.\<close>

fun watch_all :: "objType list \<Rightarrow> Clientset \<Rightarrow> Handler \<Rightarrow> World \<Rightarrow> World" where
  "watch_all [] c h w = w"
| "watch_all (k # ks) c h w = watch_all ks c h (snd (watch k c h w))"

text \<open>Sample configurations and environments.\<close>

definition conf_all :: Config where
  "conf_all = \<lparr>Resource = \<lparr>Pod = True, Services = True, ReplicationController = True,
      Deployment = True, Job = True, PersistentVolume = True\<rparr>\<rparr>"

definition conf_pods_services :: Config where
  "conf_pods_services = \<lparr>Resource = \<lparr>Pod = True, Services = True,
      ReplicationController = False, Deployment = False, Job = False,
      PersistentVolume = False\<rparr>\<rparr>"

definition env_ok :: Env where
  "env_ok = \<lparr>Load = Inr (RawConfig ''kubeconfig''),
      ClientConfig = (\<lambda>raw. Inr (RestConfig ''https://10.0.0.1:6443'')),
      NewForConfig = (\<lambda>rest. Inr (Clientset rest)),
      ListenAndServe = (\<lambda>addr. None)\<rparr>"

definition env_no_kubeconfig :: Env where
  "env_no_kubeconfig = \<lparr>Load = Inl ''no kubeconfig'',
      ClientConfig = (\<lambda>raw. Inr (RestConfig ''https://10.0.0.1:6443'')),
      NewForConfig = (\<lambda>rest. Inr (Clientset rest)),
      ListenAndServe = (\<lambda>addr. None)\<rparr>"

section \<open>The reconciliation loop\<close>

text \<open>
  The reconciliation loop is what \<^verbatim>\<open>cache.NewInformer\<close> builds and
  \<^verbatim>\<open>eController.Run\<close> runs. It is code of the client library: the sources hold
  its callers only. The definitions of this section are therefore taken from sections 3,
  4.1, 4.3 and 4.4 of the specification.
\<close>

text \<open>Modelled from the spec: the stable identity of a watched object, namespace and name
  (section 3); the object types of the client library are not among the sources.\<close>

type_synonym identity = "string \<times> string"

text \<open>Modelled from the spec: a watched object with its identity, its resource version and its
  kind-specific fields (section 3); the object types of the client library are not among
  the sources.\<close>

record WatchedObject =
  obj_identity :: identity
  obj_resourceVersion :: nat
  obj_fields :: string

text \<open>Modelled from the spec: the resource mirror, from identities to the last object observed
  (section 3); the store of the client library is not among the sources.\<close>

type_synonym Mirror = "identity \<rightharpoonup> WatchedObject"

text \<open>Modelled from the spec: the mirror's Get (section 4.1); the store of the client library
  is not among the sources.\<close>

definition Get :: "Mirror \<Rightarrow> identity \<Rightarrow> WatchedObject option" where
  "Get m i = m i"

text \<open>Modelled from the spec: the mirror's Put (section 4.1); the resource version is a field
  of the object stored.\<close>

definition Put :: "Mirror \<Rightarrow> identity \<Rightarrow> WatchedObject \<Rightarrow> Mirror" where
  "Put m i obj = m(i \<mapsto> obj)"

text \<open>Modelled from the spec: the mirror's Delete (section 4.1).\<close>

definition Delete :: "Mirror \<Rightarrow> identity \<Rightarrow> Mirror" where
  "Delete m i = m(i := None)"

text \<open>Modelled from the spec: a record of the watch stream, tagged Added, Modified or Deleted
  and carrying one decoded object (section 4.2); the watch interface of the client library
  is not among the sources.\<close>

datatype WatchRecord =
    Added WatchedObject
  | Modified WatchedObject
  | Deleted WatchedObject

text \<open>Modelled from the spec: the change events the loop produces (section 3).\<close>

datatype ChangeEvent =
    EvAdded WatchedObject
  | EvUpdated WatchedObject WatchedObject
  | EvDeleted WatchedObject

text \<open>Modelled from the spec: what the loop does in state Streaming with the object of an
  Added or Modified record (section 4.3): an absent identity gives Added, a present one
  with another resource version gives Updated with the old and the new object, a present
  one with the same resource version is suppressed; the mirror is updated unless the
  record is suppressed.\<close>

definition upsert :: "Mirror \<Rightarrow> WatchedObject \<Rightarrow> Mirror \<times> ChangeEvent list" where
  "upsert m obj =
     (case Get m (obj_identity obj) of
        None \<Rightarrow> (Put m (obj_identity obj) obj, [EvAdded obj])
      | Some old \<Rightarrow>
          if obj_resourceVersion obj = obj_resourceVersion old then (m, [])
          else (Put m (obj_identity obj) obj, [EvUpdated old obj]))"

text \<open>Modelled from the spec: the loop's handling of one record in state Streaming (section
  4.3), whose code is in the client library and not among the sources. A Modified record
  whose resource version is not strictly newer than the mirror's is suppressed (the
  tie-break of section 4.3); a Deleted record removes a present identity and emits
  Deleted, and is suppressed for an absent one.\<close>

definition streaming_record :: "Mirror \<Rightarrow> WatchRecord \<Rightarrow> Mirror \<times> ChangeEvent list" where
  "streaming_record m r =
     (case r of
        Added obj \<Rightarrow> upsert m obj
      | Modified obj \<Rightarrow>
          (case Get m (obj_identity obj) of
             None \<Rightarrow> upsert m obj
           | Some old \<Rightarrow>
               if obj_resourceVersion obj \<le> obj_resourceVersion old then (m, [])
               else upsert m obj)
      | Deleted obj \<Rightarrow>
          (case Get m (obj_identity obj) of
             None \<Rightarrow> (m, [])
           | Some old \<Rightarrow> (Delete m (obj_identity obj), [EvDeleted obj])))"

text \<open>Modelled from the spec: the capability set of the dispatcher (section 4.4).\<close>

datatype invocation =
    OnAdded WatchedObject
  | OnUpdated WatchedObject WatchedObject
  | OnDeleted WatchedObject

text \<open>Modelled from the spec: one dispatch call per detected transition, with no queue in
  between (section 4.4).\<close>

fun dispatch :: "ChangeEvent \<Rightarrow> invocation" where
  "dispatch (EvAdded obj) = OnAdded obj"
| "dispatch (EvUpdated old obj) = OnUpdated old obj"
| "dispatch (EvDeleted obj) = OnDeleted obj"

text \<open>Modelled from the spec: state Streaming over a sequence of records: the records are
  handled one at a time, in order, each on the mirror the previous one left (sections 4.3
  and 5); the result is the final mirror and the dispatcher invocations made.\<close>

fun streaming :: "Mirror \<Rightarrow> WatchRecord list \<Rightarrow> Mirror \<times> invocation list" where
  "streaming m [] = (m, [])"
| "streaming m (r # rs) =
     (let (m1, evs) = streaming_record m r;
          (m2, invs) = streaming m1 rs
      in (m2, map dispatch evs @ invs))"

text \<open>A sample object.\<close>

definition sample_pod :: WatchedObject where
  "sample_pod = \<lparr>obj_identity = (''default'', ''web-0''), obj_resourceVersion = 7,
                  obj_fields = ''Running''\<rparr>"

section \<open>What the watch functions and the controller do to the world\<close>

lemmas watch_defs = watchPods_def watchServices_def watchReplicationControllers_def
  watchDeployments_def watchJobs_def watchPersistenVolumes_def NewInformer_def go_Run_def
  NewListWatchFromClient_def

lemma watch_effect:
  "snd (watch k c h w) =
     w\<lparr>informers := informers w @ [informer_of k c h],
       goroutines := goroutines w @ [(InformerController (length (informers w)), NeverStop)]\<rparr>"
  by (cases k) (simp_all add: watch_def informer_of_def empty_world_def watch_defs)

lemma watch_all_informers:
  "informers (watch_all ks c h w) = informers w @ map (\<lambda>k. informer_of k c h) ks"
  by (induction ks arbitrary: w) (simp_all add: watch_effect)

lemma upt_shift: "[n ..< n + Suc m] = n # [Suc n ..< Suc n + m]"
proof -
  have "n < n + Suc m" by simp
  then have "[n ..< n + Suc m] = n # [Suc n ..< n + Suc m]" by (rule upt_conv_Cons)
  then show ?thesis by simp
qed

lemma watch_all_goroutines:
  "goroutines (watch_all ks c h w) =
     goroutines w @ map (\<lambda>j. (InformerController j, NeverStop))
                       [length (informers w) ..< length (informers w) + length ks]"
proof (induction ks arbitrary: w)
  case Nil
  show ?case by simp
next
  case (Cons k ks)
  show ?case
    using upt_shift [of "length (informers w)" "length ks"]
    by (simp add: Cons.IH watch_effect del: upt_Suc)
qed

lemma watch_all_listen: "listen_calls (watch_all ks c h w) = listen_calls w"
  by (induction ks arbitrary: w) (simp_all add: watch_effect)

lemma watch_unfold:
  "watchPods c h w = watch api_Pod c h w"
  "watchServices c h w = watch api_Service c h w"
  "watchReplicationControllers c h w = watch api_ReplicationController c h w"
  "watchDeployments c h w = watch v1beta1_Deployment c h w"
  "watchJobs c h w = watch batchv1_Job c h w"
  "watchPersistenVolumes c None h w = watch api_PersistentVolume c h w"
  by (simp_all add: watch_def)

lemma watch_listen: "listen_calls (snd (watch k c h w)) = listen_calls w"
  by (simp add: watch_effect)

lemma Controller_ok:
  assumes "Load env = Inr raw" and "ClientConfig env raw = Inr rest"
    and "NewForConfig env rest = Inr c"
  shows "Controller conf h env w =
     (listen_outcome env,
      (watch_all (filter (enabled conf) all_kinds) c h w)
        \<lparr>listen_calls := listen_calls w @ ['':8081'']\<rparr>)"
  using assms
  by (simp add: Controller_def listen_outcome_def watch_unfold watch_listen all_kinds_def
      enabled_def Let_def split: option.splits)

lemma informer_of_eq:
  "informer_of k c h =
     \<lparr>inf_lw = \<lparr>lw_client = RESTClient c (case k of v1beta1_Deployment \<Rightarrow> ExtensionsV1beta1
                                               | batchv1_Job \<Rightarrow> BatchV1 | _ \<Rightarrow> Core),
                lw_resource = (case k of api_Pod \<Rightarrow> ''pods'' | api_Service \<Rightarrow> ''services''
                   | api_ReplicationController \<Rightarrow> ''replicationcontrollers''
                   | v1beta1_Deployment \<Rightarrow> ''deployments'' | batchv1_Job \<Rightarrow> ''jobs''
                   | api_PersistentVolume \<Rightarrow> ''persistentvolumes''),
                lw_namespace = NamespaceAll, lw_fieldSelector = Everything\<rparr>,
      inf_objType = k, inf_resyncPeriod = 30 * Minute,
      inf_h = \<lparr>AddFunc = Some (ObjectCreated h),
               UpdateFunc = (if k = api_Service then Some (ObjectUpdated h) else None),
               DeleteFunc = Some (ObjectDeleted h)\<rparr>\<rparr>"
  by (cases k) (simp_all add: watch_def informer_of_def empty_world_def watch_defs)

lemma Controller_failed:
  assumes "Load env = Inl e \<or> (\<exists>raw. Load env = Inr raw \<and> (ClientConfig env raw = Inl e \<or>
             (\<exists>rest. ClientConfig env raw = Inr rest \<and> NewForConfig env rest = Inl e)))"
  shows "snd (Controller conf h env w) = w \<and>
         (fst (Controller conf h env w) = Fatal e \<or> fst (Controller conf h env w) = Panic e)"
  using assms by (auto simp: Controller_def)

lemma Controller_world:
  "\<exists>c ks. informers (snd (Controller conf h env w)) =
             informers w @ map (\<lambda>k. informer_of k c h) ks \<and>
          goroutines (snd (Controller conf h env w)) =
             goroutines w @ map (\<lambda>j. (InformerController j, NeverStop))
               [length (informers w) ..< length (informers w) + length ks]"
proof (cases "\<exists>raw rest c. Load env = Inr raw \<and> ClientConfig env raw = Inr rest \<and>
                 NewForConfig env rest = Inr c")
  case True
  then obtain raw rest c where "Load env = Inr raw" "ClientConfig env raw = Inr rest"
    "NewForConfig env rest = Inr c" by blast
  then have "Controller conf h env w = (listen_outcome env,
      (watch_all (filter (enabled conf) all_kinds) c h w)
        \<lparr>listen_calls := listen_calls w @ ['':8081'']\<rparr>)"
    by (rule Controller_ok)
  then show ?thesis
    by (simp add: watch_all_informers watch_all_goroutines) blast
next
  case False
  then have "snd (Controller conf h env w) = w"
    by (auto simp: Controller_def split: sum.splits)
  then have "informers (snd (Controller conf h env w)) =
             informers w @ map (\<lambda>k. informer_of k (Clientset (RestConfig [])) h) [] \<and>
          goroutines (snd (Controller conf h env w)) =
             goroutines w @ map (\<lambda>j. (InformerController j, NeverStop))
               [length (informers w) ..< length (informers w) + length ([]::objType list)]"
    by simp
  then show ?thesis by blast
qed

lemma new_informers_kinds:
  "\<exists>c ks. new_informers w (snd (Controller conf h env w)) = map (\<lambda>k. informer_of k c h) ks"
proof -
  obtain c ks where "informers (snd (Controller conf h env w)) =
      informers w @ map (\<lambda>k. informer_of k c h) ks"
    using Controller_world [of conf h env w] by blast
  then have "new_informers w (snd (Controller conf h env w)) = map (\<lambda>k. informer_of k c h) ks"
    by (simp add: new_informers_def)
  then show ?thesis by blast
qed

lemma new_goroutines_never_stop:
  "\<exists>n m. new_goroutines w (snd (Controller conf h env w)) =
     map (\<lambda>j. (InformerController j, NeverStop)) [n ..< m]"
proof -
  obtain c ks where "goroutines (snd (Controller conf h env w)) =
      goroutines w @ map (\<lambda>j. (InformerController j, NeverStop))
        [length (informers w) ..< length (informers w) + length (ks :: objType list)]"
    using Controller_world [of conf h env w] by blast
  then have "new_goroutines w (snd (Controller conf h env w)) =
      map (\<lambda>j. (InformerController j, NeverStop))
        [length (informers w) ..< length (informers w) + length ks]"
    by (simp add: new_goroutines_def)
  then show ?thesis by blast
qed

lemma new_informers_ok:
  assumes "Load env = Inr raw" and "ClientConfig env raw = Inr rest"
    and "NewForConfig env rest = Inr c"
  shows "new_informers w (snd (Controller conf h env w)) =
           map (\<lambda>k. informer_of k c h) (filter (enabled conf) all_kinds)"
  by (simp add: Controller_ok [OF assms] new_informers_def watch_all_informers)

lemma sample_run:
  "Controller conf_pods_services (Handler ''slack'') env_ok empty_world =
     (ServingForever,
      \<lparr>informers = [informer_of api_Pod (Clientset (RestConfig ''https://10.0.0.1:6443''))
                      (Handler ''slack''),
                    informer_of api_Service (Clientset (RestConfig ''https://10.0.0.1:6443''))
                      (Handler ''slack'')],
       goroutines = [(InformerController 0, NeverStop), (InformerController 1, NeverStop)],
       listen_calls = ['':8081'']\<rparr>)"
  by (simp add: Controller_def conf_pods_services_def env_ok_def empty_world_def
      informer_of_eq watch_defs)

lemma env_ok_setup:
  "Load env_ok = Inr (RawConfig ''kubeconfig'')"
  "ClientConfig env_ok (RawConfig ''kubeconfig'') = Inr (RestConfig ''https://10.0.0.1:6443'')"
  "NewForConfig env_ok (RestConfig ''https://10.0.0.1:6443'') =
     Inr (Clientset (RestConfig ''https://10.0.0.1:6443''))"
  by (simp_all add: env_ok_def)

lemma empty_world_simps:
  "informers empty_world = []" "goroutines empty_world = []" "listen_calls empty_world = []"
  by (simp_all add: empty_world_def)

lemma sample_new_goroutines:
  "new_goroutines empty_world
     (snd (Controller conf_pods_services (Handler ''slack'') env_ok empty_world)) =
   [(InformerController 0, NeverStop), (InformerController 1, NeverStop)]"
  by (simp add: sample_run new_goroutines_def empty_world_simps)

lemma deleted_present_dispatched:
  "Get m (obj_identity obj) = Some old \<Longrightarrow>
   streaming m [Deleted obj] = (Delete m (obj_identity obj), [OnDeleted obj])"
  by (simp add: streaming_record_def)

lemma watch_builds:
  "length (informers (snd (watch k c h w))) = Suc (length (informers w))"
  "last (informers (snd (watch k c h w))) = informer_of k c h"
  "length (goroutines (snd (watch k c h w))) = Suc (length (goroutines w))"
  "last (goroutines (snd (watch k c h w))) = (InformerController (length (informers w)), NeverStop)"
  by (simp_all add: watch_effect)

lemma enabled_kind_built:
  assumes "Load env = Inr raw" and "ClientConfig env raw = Inr rest"
    and "NewForConfig env rest = Inr c" and "enabled conf k"
  shows "informer_of k c h \<in> set (new_informers w (snd (Controller conf h env w)))"
proof -
  have "k \<in> set all_kinds"
    by (cases k) (simp_all add: all_kinds_def)
  with assms(4) show ?thesis
    by (simp add: new_informers_ok [OF assms(1-3)])
qed



lemma thirty_minutes: "sint (30 * Minute) = 30 * 60 * 1000000000"
  by (simp add: Minute_def Second_def Millisecond_def Microsecond_def Nanosecond_def)

section \<open>Properties\<close>

text \<open>
  Claim C1, as stated: each of the six watch functions registers all three entry points of
  the handler with its informer. It fails for \<^verbatim>\<open>watchPods\<close>: the informer it
  builds has no update function.
\<close>

theorem watchPods_registers_no_update:
  "map (UpdateFunc \<circ> inf_h)
     (informers (snd (watchPods (Clientset (RestConfig ''https://10.0.0.1:6443''))
        (Handler ''slack'') empty_world))) = [None]"
  by (simp add: watch_defs empty_world_def)

text \<open>
  Claim C1, amended: when the set-up succeeds, the controller builds an informer for every
  kind whose flag is set, and every informer it builds has the handler's object-created
  entry point as its add function and the handler's object-deleted entry point as its
  delete function; the object-updated entry point is the update function of the informer
  for services and of no other.
\<close>

theorem registered_handlers_by_kind:
  assumes "Load env = Inr raw" and "ClientConfig env raw = Inr rest"
    and "NewForConfig env rest = Inr c"
  shows "(\<forall>k. enabled conf k \<longrightarrow>
            (\<exists>i \<in> set (new_informers w (snd (Controller conf h env w))). inf_objType i = k)) \<and>
         (\<forall>i \<in> set (new_informers w (snd (Controller conf h env w))).
            AddFunc (inf_h i) = Some (ObjectCreated h) \<and>
            DeleteFunc (inf_h i) = Some (ObjectDeleted h) \<and>
            UpdateFunc (inf_h i) =
              (if inf_objType i = api_Service then Some (ObjectUpdated h) else None))"
proof -
  have all: "k \<in> set all_kinds" for k
    by (cases k) (simp_all add: all_kinds_def)
  have "\<exists>i \<in> set (map (\<lambda>k. informer_of k c h) (filter (enabled conf) all_kinds)).
          inf_objType i = k" if "enabled conf k" for k
    using that all [of k] by (auto simp: informer_of_eq)
  then show ?thesis
    by (auto simp: new_informers_ok [OF assms] informer_of_eq)
qed

theorem registered_handlers_by_kind_witness:
  "Load env_ok = Inr (RawConfig ''kubeconfig'') \<and>
   ClientConfig env_ok (RawConfig ''kubeconfig'') = Inr (RestConfig ''https://10.0.0.1:6443'') \<and>
   NewForConfig env_ok (RestConfig ''https://10.0.0.1:6443'') =
     Inr (Clientset (RestConfig ''https://10.0.0.1:6443'')) \<and>
   enabled conf_pods_services api_Pod \<and>
   enabled conf_pods_services api_Service \<and>
   (\<exists>i \<in> set (new_informers empty_world
        (snd (Controller conf_pods_services (Handler ''slack'') env_ok empty_world))).
      inf_objType i = api_Pod \<and>
      AddFunc (inf_h i) = Some (ObjectCreated (Handler ''slack'')) \<and>
      DeleteFunc (inf_h i) = Some (ObjectDeleted (Handler ''slack'')) \<and>
      UpdateFunc (inf_h i) = None) \<and>
   (\<exists>i \<in> set (new_informers empty_world
        (snd (Controller conf_pods_services (Handler ''slack'') env_ok empty_world))).
      inf_objType i = api_Service \<and>
      AddFunc (inf_h i) = Some (ObjectCreated (Handler ''slack'')) \<and>
      DeleteFunc (inf_h i) = Some (ObjectDeleted (Handler ''slack'')) \<and>
      UpdateFunc (inf_h i) = Some (ObjectUpdated (Handler ''slack'')))"
proof -
  have en: "enabled conf_pods_services api_Pod" "enabled conf_pods_services api_Service"
    by (simp_all add: enabled_def conf_pods_services_def)
  note inst = registered_handlers_by_kind [OF env_ok_setup, where conf = conf_pods_services
      and w = empty_world and h = "Handler ''slack''"]
  have pod: "\<exists>i \<in> set (new_informers empty_world
        (snd (Controller conf_pods_services (Handler ''slack'') env_ok empty_world))).
      inf_objType i = api_Pod \<and>
      AddFunc (inf_h i) = Some (ObjectCreated (Handler ''slack'')) \<and>
      DeleteFunc (inf_h i) = Some (ObjectDeleted (Handler ''slack'')) \<and>
      UpdateFunc (inf_h i) = None"
    using inst en(1) by fastforce
  have svc: "\<exists>i \<in> set (new_informers empty_world
        (snd (Controller conf_pods_services (Handler ''slack'') env_ok empty_world))).
      inf_objType i = api_Service \<and>
      AddFunc (inf_h i) = Some (ObjectCreated (Handler ''slack'')) \<and>
      DeleteFunc (inf_h i) = Some (ObjectDeleted (Handler ''slack'')) \<and>
      UpdateFunc (inf_h i) = Some (ObjectUpdated (Handler ''slack''))"
    using inst en(2) by fastforce
  show ?thesis
    using env_ok_setup en pod svc by simp
qed

text \<open>
  Claim C7: the watch function of every kind builds one informer, of that kind, whose
  list-watch is scoped to all namespaces and has the field selector that selects
  everything; every informer a run of the controller builds is scoped so; and when the
  set-up succeeds, every kind whose flag is set has an informer so scoped among those
  built.
\<close>

theorem watch_scope_all_namespaces_everything:
  "(\<forall>k. length (informers (snd (watch k c h w))) = Suc (length (informers w)) \<and>
        inf_objType (last (informers (snd (watch k c h w)))) = k \<and>
        lw_namespace (inf_lw (last (informers (snd (watch k c h w))))) = NamespaceAll \<and>
        lw_fieldSelector (inf_lw (last (informers (snd (watch k c h w))))) = Everything) \<and>
   (\<forall>i \<in> set (new_informers w (snd (Controller conf h env w))).
      lw_namespace (inf_lw i) = NamespaceAll \<and> lw_fieldSelector (inf_lw i) = Everything) \<and>
   (\<forall>raw rest cl. Load env = Inr raw \<longrightarrow> ClientConfig env raw = Inr rest \<longrightarrow>
      NewForConfig env rest = Inr cl \<longrightarrow>
      (\<forall>k. enabled conf k \<longrightarrow>
         (\<exists>i \<in> set (new_informers w (snd (Controller conf h env w))).
            inf_objType i = k \<and> lw_namespace (inf_lw i) = NamespaceAll \<and>
            lw_fieldSelector (inf_lw i) = Everything)))"
proof -
  have each: "length (informers (snd (watch k c h w))) = Suc (length (informers w)) \<and>
        inf_objType (last (informers (snd (watch k c h w)))) = k \<and>
        lw_namespace (inf_lw (last (informers (snd (watch k c h w))))) = NamespaceAll \<and>
        lw_fieldSelector (inf_lw (last (informers (snd (watch k c h w))))) = Everything" for k
    by (simp add: watch_builds informer_of_eq)
  have built: "\<forall>i \<in> set (new_informers w (snd (Controller conf h env w))).
      lw_namespace (inf_lw i) = NamespaceAll \<and> lw_fieldSelector (inf_lw i) = Everything"
    using new_informers_kinds [of w conf h env] by (auto simp: informer_of_eq)
  have ex: "\<exists>i \<in> set (new_informers w (snd (Controller conf h env w))).
            inf_objType i = k \<and> lw_namespace (inf_lw i) = NamespaceAll \<and>
            lw_fieldSelector (inf_lw i) = Everything"
    if "Load env = Inr raw" "ClientConfig env raw = Inr rest" "NewForConfig env rest = Inr cl"
      "enabled conf k" for raw rest cl k
  proof -
    have "informer_of k cl h \<in> set (new_informers w (snd (Controller conf h env w)))"
      using that by (rule enabled_kind_built)
    moreover have "inf_objType (informer_of k cl h) = k"
      by (simp add: informer_of_eq)
    ultimately show ?thesis using built by blast
  qed
  from each built ex show ?thesis by blast
qed

theorem watch_scope_all_namespaces_everything_witness:
  "Load env_ok = Inr (RawConfig ''kubeconfig'') \<and>
   ClientConfig env_ok (RawConfig ''kubeconfig'') = Inr (RestConfig ''https://10.0.0.1:6443'') \<and>
   NewForConfig env_ok (RestConfig ''https://10.0.0.1:6443'') =
     Inr (Clientset (RestConfig ''https://10.0.0.1:6443'')) \<and>
   enabled conf_all api_PersistentVolume \<and>
   (\<exists>i \<in> set (new_informers empty_world
        (snd (Controller conf_all (Handler ''slack'') env_ok empty_world))).
      inf_objType i = api_PersistentVolume \<and> lw_namespace (inf_lw i) = NamespaceAll \<and>
      lw_fieldSelector (inf_lw i) = Everything)"
proof -
  have en: "enabled conf_all api_PersistentVolume"
    by (simp add: enabled_def conf_all_def)
  note inst = watch_scope_all_namespaces_everything [where conf = conf_all and w = empty_world
      and h = "Handler ''slack''" and env = env_ok]
  have "\<exists>i \<in> set (new_informers empty_world
        (snd (Controller conf_all (Handler ''slack'') env_ok empty_world))).
      inf_objType i = api_PersistentVolume \<and> lw_namespace (inf_lw i) = NamespaceAll \<and>
      lw_fieldSelector (inf_lw i) = Everything"
    using inst env_ok_setup en by blast
  with env_ok_setup en show ?thesis by simp
qed

text \<open>
  Claim C2: when the set-up succeeds, the controller builds exactly one informer for every
  kind whose flag is set and none for a kind whose flag is not set, leaves the informers
  that existed before untouched, and starts the controller of every informer it has built
  exactly once, each in a goroutine of its own.
\<close>

theorem one_loop_per_enabled_kind:
  assumes "Load env = Inr raw" and "ClientConfig env raw = Inr rest"
    and "NewForConfig env rest = Inr c"
  shows "(\<forall>k. length (filter (\<lambda>i. inf_objType i = k)
                  (new_informers w (snd (Controller conf h env w)))) =
              (if enabled conf k then 1 else 0)) \<and>
         take (length (informers w)) (informers (snd (Controller conf h env w))) = informers w \<and>
         map fst (new_goroutines w (snd (Controller conf h env w))) =
           map InformerController
             [length (informers w) ..< length (informers (snd (Controller conf h env w)))]"
proof -
  let ?ks = "filter (enabled conf) all_kinds"
  have run: "Controller conf h env w = (listen_outcome env,
      (watch_all ?ks c h w)\<lparr>listen_calls := listen_calls w @ ['':8081'']\<rparr>)"
    using assms by (rule Controller_ok)
  have count: "length (filter (\<lambda>i. inf_objType i = k) (map (\<lambda>k. informer_of k c h) ?ks)) =
      (if enabled conf k then 1 else 0)" for k
    by (cases k) (simp_all add: all_kinds_def informer_of_eq enabled_def)
  have a: "new_informers w (snd (Controller conf h env w)) = map (\<lambda>k. informer_of k c h) ?ks"
    using assms by (rule new_informers_ok)
  have b: "informers (snd (Controller conf h env w)) =
      informers w @ map (\<lambda>k. informer_of k c h) ?ks"
    by (simp add: run watch_all_informers)
  have g: "new_goroutines w (snd (Controller conf h env w)) =
      map (\<lambda>j. (InformerController j, NeverStop))
        [length (informers w) ..< length (informers w) + length ?ks]"
    by (simp add: run watch_all_goroutines new_goroutines_def)
  have "\<forall>k. length (filter (\<lambda>i. inf_objType i = k)
                  (new_informers w (snd (Controller conf h env w)))) =
              (if enabled conf k then 1 else 0)"
    by (simp only: a count) simp
  moreover have "take (length (informers w)) (informers (snd (Controller conf h env w))) =
      informers w"
    by (simp add: b)
  moreover have "map fst (new_goroutines w (snd (Controller conf h env w))) =
           map InformerController
             [length (informers w) ..< length (informers (snd (Controller conf h env w)))]"
    by (simp add: g b comp_def)
  ultimately show ?thesis by blast
qed

theorem one_loop_per_enabled_kind_witness:
  "Load env_ok = Inr (RawConfig ''kubeconfig'') \<and>
   ClientConfig env_ok (RawConfig ''kubeconfig'') = Inr (RestConfig ''https://10.0.0.1:6443'') \<and>
   NewForConfig env_ok (RestConfig ''https://10.0.0.1:6443'') =
     Inr (Clientset (RestConfig ''https://10.0.0.1:6443'')) \<and>
   enabled conf_pods_services api_Service \<and>
   length (filter (\<lambda>i. inf_objType i = api_Service)
     (new_informers empty_world
        (snd (Controller conf_pods_services (Handler ''slack'') env_ok empty_world)))) = 1 \<and>
   \<not> enabled conf_pods_services batchv1_Job \<and>
   length (filter (\<lambda>i. inf_objType i = batchv1_Job)
     (new_informers empty_world
        (snd (Controller conf_pods_services (Handler ''slack'') env_ok empty_world)))) = 0"
proof -
  have en: "enabled conf_pods_services api_Service" "\<not> enabled conf_pods_services batchv1_Job"
    by (simp_all add: enabled_def conf_pods_services_def)
  note inst = one_loop_per_enabled_kind [OF env_ok_setup, where conf = conf_pods_services and w = empty_world
      and h = "Handler ''slack''"]
  from inst have "length (filter (\<lambda>i. inf_objType i = k)
     (new_informers empty_world
        (snd (Controller conf_pods_services (Handler ''slack'') env_ok empty_world)))) =
      (if enabled conf_pods_services k then 1 else 0)" for k
    by blast
  from this [of api_Service] this [of batchv1_Job] show ?thesis
    using env_ok_setup en by simp
qed




text \<open>
  Claim C4: the watch function of every kind builds one informer, of that kind, with the
  resync period \<^verbatim>\<open>30 * time.Minute\<close>; every informer a run of the controller
  builds has that period, which is 1800000000000 nanoseconds (the product does not
  overflow the 64 bits of a duration); and when the set-up succeeds, every kind whose
  flag is set has an informer with that period among those built.
\<close>

theorem resync_period_thirty_minutes:
  "(\<forall>k. length (informers (snd (watch k c h w))) = Suc (length (informers w)) \<and>
        inf_objType (last (informers (snd (watch k c h w)))) = k \<and>
        inf_resyncPeriod (last (informers (snd (watch k c h w)))) = 30 * Minute) \<and>
   (\<forall>i \<in> set (new_informers w (snd (Controller conf h env w))).
      inf_resyncPeriod i = 30 * Minute \<and> sint (inf_resyncPeriod i) = 30 * 60 * 1000000000) \<and>
   (\<forall>raw rest cl. Load env = Inr raw \<longrightarrow> ClientConfig env raw = Inr rest \<longrightarrow>
      NewForConfig env rest = Inr cl \<longrightarrow>
      (\<forall>k. enabled conf k \<longrightarrow>
         (\<exists>i \<in> set (new_informers w (snd (Controller conf h env w))).
            inf_objType i = k \<and> inf_resyncPeriod i = 30 * Minute \<and>
            sint (inf_resyncPeriod i) = 30 * 60 * 1000000000)))"
proof -
  have each: "length (informers (snd (watch k c h w))) = Suc (length (informers w)) \<and>
        inf_objType (last (informers (snd (watch k c h w)))) = k \<and>
        inf_resyncPeriod (last (informers (snd (watch k c h w)))) = 30 * Minute" for k
    by (simp add: watch_builds informer_of_eq)
  have built: "\<forall>i \<in> set (new_informers w (snd (Controller conf h env w))).
      inf_resyncPeriod i = 30 * Minute \<and> sint (inf_resyncPeriod i) = 30 * 60 * 1000000000"
    using new_informers_kinds [of w conf h env] thirty_minutes
    by (auto simp: informer_of_eq)
  have ex: "\<exists>i \<in> set (new_informers w (snd (Controller conf h env w))).
            inf_objType i = k \<and> inf_resyncPeriod i = 30 * Minute \<and>
            sint (inf_resyncPeriod i) = 30 * 60 * 1000000000"
    if "Load env = Inr raw" "ClientConfig env raw = Inr rest" "NewForConfig env rest = Inr cl"
      "enabled conf k" for raw rest cl k
  proof -
    have "informer_of k cl h \<in> set (new_informers w (snd (Controller conf h env w)))"
      using that by (rule enabled_kind_built)
    moreover have "inf_objType (informer_of k cl h) = k"
      by (simp add: informer_of_eq)
    ultimately show ?thesis using built by blast
  qed
  from each built ex show ?thesis by blast
qed

theorem resync_period_thirty_minutes_witness:
  "Load env_ok = Inr (RawConfig ''kubeconfig'') \<and>
   ClientConfig env_ok (RawConfig ''kubeconfig'') = Inr (RestConfig ''https://10.0.0.1:6443'') \<and>
   NewForConfig env_ok (RestConfig ''https://10.0.0.1:6443'') =
     Inr (Clientset (RestConfig ''https://10.0.0.1:6443'')) \<and>
   enabled conf_pods_services api_Service \<and>
   (\<exists>i \<in> set (new_informers empty_world
        (snd (Controller conf_pods_services (Handler ''slack'') env_ok empty_world))).
      inf_objType i = api_Service \<and> sint (inf_resyncPeriod i) = 1800000000000)"
proof -
  have en: "enabled conf_pods_services api_Service"
    by (simp add: enabled_def conf_pods_services_def)
  note inst = resync_period_thirty_minutes [where conf = conf_pods_services and w = empty_world
      and h = "Handler ''slack''" and env = env_ok]
  have "\<exists>i \<in> set (new_informers empty_world
        (snd (Controller conf_pods_services (Handler ''slack'') env_ok empty_world))).
      inf_objType i = api_Service \<and> inf_resyncPeriod i = 30 * Minute \<and>
      sint (inf_resyncPeriod i) = 30 * 60 * 1000000000"
    using inst env_ok_setup en by blast
  then have "\<exists>i \<in> set (new_informers empty_world
        (snd (Controller conf_pods_services (Handler ''slack'') env_ok empty_world))).
      inf_objType i = api_Service \<and> sint (inf_resyncPeriod i) = 1800000000000"
    by auto
  with env_ok_setup en show ?thesis by simp
qed

text \<open>
  Claim C5: every goroutine the controller starts runs its loop with the stop channel
  \<^verbatim>\<open>wait.NeverStop\<close>, the channel that is never closed: no loop is given a
  channel on which a stop signal could be delivered.
\<close>

theorem loops_run_with_NeverStop:
  "\<forall>g \<in> set (new_goroutines w (snd (Controller conf h env w))). snd g = NeverStop"
  using new_goroutines_never_stop [of w conf h env] by auto

theorem loops_run_with_NeverStop_witness:
  "(InformerController 1, NeverStop)
     \<in> set (new_goroutines empty_world
          (snd (Controller conf_pods_services (Handler ''slack'') env_ok empty_world))) \<and>
   snd (InformerController 1, NeverStop) = NeverStop"
proof -
  have "(InformerController 1, NeverStop)
     \<in> set (new_goroutines empty_world
          (snd (Controller conf_pods_services (Handler ''slack'') env_ok empty_world)))"
    by (simp add: sample_new_goroutines)
  with loops_run_with_NeverStop [where w = empty_world and conf = conf_pods_services
      and h = "Handler ''slack''" and env = env_ok] show ?thesis
    by blast
qed

text \<open>
  Claim C6: when loading the client configuration, deriving the REST configuration or
  building the client set fails with an error, the call of the controller ends the process
  with that error as its diagnostic and a non-zero exit status (1 from
  \<^verbatim>\<open>logrus.Fatal\<close>, 2 from the panic of \<^verbatim>\<open>NewForConfigOrDie\<close>), and
  the world is as it was: no informer is built, no goroutine started, no listener called.
\<close>

theorem setup_failure_exits_before_watching:
  assumes "Load env = Inl e \<or>
           (\<exists>raw. Load env = Inr raw \<and>
              (ClientConfig env raw = Inl e \<or>
               (\<exists>rest. ClientConfig env raw = Inr rest \<and> NewForConfig env rest = Inl e)))"
  shows "snd (Controller conf h env w) = w \<and>
         diagnostic (fst (Controller conf h env w)) = Some e \<and>
         (exit_status (fst (Controller conf h env w)) = Some 1 \<or>
          exit_status (fst (Controller conf h env w)) = Some 2)"
  using Controller_failed [OF assms, of conf h w] by auto

theorem setup_failure_exits_before_watching_witness:
  "Load env_no_kubeconfig = Inl ''no kubeconfig'' \<and>
   Controller conf_all (Handler ''slack'') env_no_kubeconfig empty_world =
     (Fatal ''no kubeconfig'', empty_world)"
proof -
  have l: "Load env_no_kubeconfig = Inl ''no kubeconfig''"
    by (simp add: env_no_kubeconfig_def)
  then have "Load env_no_kubeconfig = Inl ''no kubeconfig'' \<or>
           (\<exists>raw. Load env_no_kubeconfig = Inr raw \<and>
              (ClientConfig env_no_kubeconfig raw = Inl ''no kubeconfig'' \<or>
               (\<exists>rest. ClientConfig env_no_kubeconfig raw = Inr rest \<and>
                  NewForConfig env_no_kubeconfig rest = Inl ''no kubeconfig'')))"
    by simp
  from setup_failure_exits_before_watching [OF this, where conf = conf_all and h = "Handler ''slack''" and w = empty_world]
  have "snd (Controller conf_all (Handler ''slack'') env_no_kubeconfig empty_world) = empty_world"
    and "diagnostic (fst (Controller conf_all (Handler ''slack'') env_no_kubeconfig empty_world))
           = Some ''no kubeconfig''"
    and "exit_status (fst (Controller conf_all (Handler ''slack'') env_no_kubeconfig empty_world))
           = Some 1 \<or>
         exit_status (fst (Controller conf_all (Handler ''slack'') env_no_kubeconfig empty_world))
           = Some 2"
    by blast+
  then have "Controller conf_all (Handler ''slack'') env_no_kubeconfig empty_world =
     (Fatal ''no kubeconfig'', empty_world)"
    by (cases "Controller conf_all (Handler ''slack'') env_no_kubeconfig empty_world")
       (simp add: Controller_def l)
  with l show ?thesis by simp
qed

text \<open>
  Claim C8: when the set-up succeeds, the informers the controller builds are, in this
  order and for the kinds whose flag is set, those of the fixed table of six kinds: pods,
  services, replication controllers and persistent volumes on the core API, deployments on
  the extensions/v1beta1 API and jobs on the batch/v1 API, each with the object type of its
  own kind as decoder.
\<close>

theorem kinds_wired_to_endpoint_and_decoder:
  assumes "Load env = Inr raw" and "ClientConfig env raw = Inr rest"
    and "NewForConfig env rest = Inr c"
  shows "map (\<lambda>i. (lw_client (inf_lw i), lw_resource (inf_lw i), inf_objType i))
           (new_informers w (snd (Controller conf h env w))) =
         filter (\<lambda>(cl, r, k). enabled conf k)
           [(RESTClient c Core, ''pods'', api_Pod),
            (RESTClient c Core, ''services'', api_Service),
            (RESTClient c Core, ''replicationcontrollers'', api_ReplicationController),
            (RESTClient c ExtensionsV1beta1, ''deployments'', v1beta1_Deployment),
            (RESTClient c BatchV1, ''jobs'', batchv1_Job),
            (RESTClient c Core, ''persistentvolumes'', api_PersistentVolume)]"
  by (simp add: new_informers_ok [OF assms] all_kinds_def informer_of_eq)

theorem kinds_wired_to_endpoint_and_decoder_witness:
  "Load env_ok = Inr (RawConfig ''kubeconfig'') \<and>
   ClientConfig env_ok (RawConfig ''kubeconfig'') = Inr (RestConfig ''https://10.0.0.1:6443'') \<and>
   NewForConfig env_ok (RestConfig ''https://10.0.0.1:6443'') =
     Inr (Clientset (RestConfig ''https://10.0.0.1:6443'')) \<and>
   map (\<lambda>i. (lw_client (inf_lw i), lw_resource (inf_lw i), inf_objType i))
     (new_informers empty_world
        (snd (Controller conf_all (Handler ''slack'') env_ok empty_world))) =
   [(RESTClient (Clientset (RestConfig ''https://10.0.0.1:6443'')) Core, ''pods'', api_Pod),
    (RESTClient (Clientset (RestConfig ''https://10.0.0.1:6443'')) Core, ''services'',
       api_Service),
    (RESTClient (Clientset (RestConfig ''https://10.0.0.1:6443'')) Core,
       ''replicationcontrollers'', api_ReplicationController),
    (RESTClient (Clientset (RestConfig ''https://10.0.0.1:6443'')) ExtensionsV1beta1,
       ''deployments'', v1beta1_Deployment),
    (RESTClient (Clientset (RestConfig ''https://10.0.0.1:6443'')) BatchV1, ''jobs'',
       batchv1_Job),
    (RESTClient (Clientset (RestConfig ''https://10.0.0.1:6443'')) Core, ''persistentvolumes'',
       api_PersistentVolume)]"
proof -
  have en: "enabled conf_all k" for k
    by (cases k) (simp_all add: enabled_def conf_all_def)
  from kinds_wired_to_endpoint_and_decoder [OF env_ok_setup, where conf = conf_all and w = empty_world
      and h = "Handler ''slack''"] env_ok_setup
  show ?thesis by (simp add: en)
qed

text \<open>
  Claim C9: in state Streaming, a Deleted record for an identity that is not in the mirror
  leaves the mirror unchanged and leads to no invocation of the dispatcher.
\<close>

theorem deleted_absent_suppressed:
  assumes "Get m (obj_identity obj) = None"
  shows "streaming_record m (Deleted obj) = (m, []) \<and> streaming m [Deleted obj] = (m, [])"
  using assms by (simp add: streaming_record_def)

theorem deleted_absent_suppressed_witness:
  "Get Map.empty (obj_identity sample_pod) = None \<and>
   streaming Map.empty [Deleted sample_pod] = (Map.empty, [])"
proof -
  have "Get Map.empty (obj_identity sample_pod) = None"
    by (simp add: Get_def)
  with deleted_absent_suppressed [OF this] show ?thesis by simp
qed

text \<open>
  Claim C10: \<^verbatim>\<open>watchPersistenVolumes\<close> does not depend on its store argument:
  for any two stores (nil included) it returns the same new store and leaves the same
  world, with the same informer built and the same goroutine started.
\<close>

theorem watchPersistenVolumes_ignores_store:
  "watchPersistenVolumes clientset store1 eventHandler w =
   watchPersistenVolumes clientset store2 eventHandler w"
  by (simp add: watchPersistenVolumes_def)

end
